theory Spec2Isabelle
  imports Complex_Main "HOL-Library.Sublist"
begin

section \<open>JavaScript strings and values\<close>

text \<open>
  Strings are lists of characters. The analysed identifiers and templates are modelled
  over the code points below 256; \<open>String.prototype.toLowerCase\<close> maps A-Z and the
  upper-case letters of the Latin-1 block to their lower-case forms and leaves every
  other such code point alone.
\<close>

definition lowerChar :: "char \<Rightarrow> char" where
  "lowerChar c =
     (let n = (of_char c :: nat) in
      if (65 \<le> n \<and> n \<le> 90) \<or> (192 \<le> n \<and> n \<le> 222 \<and> n \<noteq> 215)
      then char_of (n + 32) else c)"

definition toLowerCase :: "string \<Rightarrow> string" where
  "toLowerCase s = map lowerChar s"

text \<open>\<open>s.includes(sub)\<close>: \<open>sub\<close> occurs in \<open>s\<close> as a contiguous substring.\<close>

fun includes_str :: "string \<Rightarrow> string \<Rightarrow> bool" where
  "includes_str [] sub = (sub = [])"
| "includes_str (c # cs) sub = (prefix sub (c # cs) \<or> includes_str cs sub)"

text \<open>
  The JavaScript values the generator builds. A number is a decimal
  \<open>mantissa / 10 ^ digits\<close>: \<open>JNum 1 0\<close> is \<open>1\<close>, \<open>JNum 1005 1\<close> is \<open>100.50\<close>.
  An object is the list of its own properties in insertion order.
\<close>

datatype jsval =
    JNull
  | JUndefined
  | JNaN
  | JBool bool
  | JNum int nat
  | JStr string
  | JArr "jsval list"
  | JObj "(string \<times> jsval) list"

text \<open>Decimal text of a number, as template literals and \<open>String(n)\<close> print integers.\<close>

function showNat :: "nat \<Rightarrow> string" where
  "showNat n = (if n < 10 then [char_of (48 + n)] else showNat (n div 10) @ [char_of (48 + n mod 10)])"
  by pat_completeness auto
termination
  by (relation "measure id") auto

declare showNat.simps [simp del]

definition showInt :: "int \<Rightarrow> string" where
  "showInt i = (if i < 0 then CHR ''-'' # showNat (nat (- i)) else showNat (nat i))"

text \<open>A thrown \<open>Error\<close>: its \<open>code\<close> property, when it has one, and its \<open>message\<close>.\<close>

datatype jsError = JsError (code: "string option") (message: string)

section \<open>Syntax tree (the part of the Babel tree the analyzer reads)\<close>

text \<open>
  A parameter of a function node: an \<open>Identifier\<close>, an \<open>AssignmentPattern\<close> (with
  \<open>left.name\<close>, undefined when the left side is a pattern), a \<open>RestElement\<close> (with
  \<open>argument.name\<close>), or any other pattern.
\<close>

datatype paramNode =
    PIdentifier string
  | PAssignmentPattern "string option"
  | PRestElement "string option"
  | PComplex

record funNode =
  fn_id :: "string option"
  fn_params :: "paramNode list"
  fn_async :: bool
  fn_generator :: bool

text \<open>An arrow function node has no \<open>id\<close> field and is never a generator.\<close>

record arrowNode =
  ar_params :: "paramNode list"
  ar_async :: bool

text \<open>
  A member of a class body. \<open>key.name\<close> is undefined for a computed or literal key.
\<close>

datatype classMember =
    ClassMethod "string option" string bool bool
  | ClassProperty "string option" bool
  | OtherMember

record classNode =
  cl_id :: "string option"
  cl_superClass :: "string option option"
  cl_members :: "classMember list"

text \<open>A declarator: the name when \<open>id\<close> is an identifier, and whether it has an initializer.\<close>

type_synonym declarator = "string option \<times> bool"

text \<open>An import specifier: its node type, \<open>local.name\<close>, and \<open>imported.name\<close> when present.\<close>

type_synonym importSpecifier = "string \<times> string \<times> string option"

text \<open>
  The \<open>declaration\<close> of an export node: a function or class declaration with its
  \<open>id\<close> (null for an anonymous default export), a variable declaration with the
  \<open>id.name\<close> of each declarator, or something else.
\<close>

datatype exportDecl =
    ExpFunction "string option"
  | ExpClass "string option"
  | ExpVariable "string option list"
  | ExpOther

datatype nodeKind =
    FunctionDeclaration funNode
  | FunctionExpression funNode
  | ArrowFunctionExpression arrowNode
  | ClassDeclaration classNode
  | VariableDeclaration string "declarator list"
  | ImportDeclaration string "importSpecifier list"
  | ExportDeclaration string "exportDecl option"
  | IfStatement bool
  | SwitchStatement
  | SwitchCase
  | ConditionalExpression
  | ForStatement
  | WhileStatement
  | DoWhileStatement
  | ForInStatement
  | ForOfStatement
  | TryStatement bool bool
  | LogicalExpression string
  | BlockStatement
  | OtherNode

text \<open>
  A node: its kind, the start line of \<open>loc\<close> when there is one, and its child nodes in
  traversal order. \<open>IfStatement b\<close> has \<open>b\<close> true when \<open>alternate\<close> is present;
  \<open>TryStatement c f\<close> records the presence of \<open>handler\<close> and \<open>finalizer\<close>; the
  \<open>cases\<close> of a \<open>SwitchStatement\<close> are its \<open>SwitchCase\<close> children.
\<close>

datatype node = Node nodeKind "nat option" "node list"

section \<open>Analysis result (astParser.js, lines 71-87)\<close>

record paramInfo =
  p_name :: "string option"
  p_type :: string

record functionInfo =
  f_name :: string
  f_type :: string
  f_params :: "paramInfo list"
  f_async :: bool
  f_generator :: bool
  f_line :: "nat option"
  f_complexity :: nat

record methodInfo =
  m_name :: string
  m_kind :: string
  m_static :: bool
  m_async :: bool

record propertyInfo =
  pr_name :: string
  pr_static :: bool

record classInfo =
  c_name :: string
  c_superClass :: "string option option"
  c_methods :: "methodInfo list"
  c_properties :: "propertyInfo list"
  c_line :: "nat option"

record variableInfo =
  v_name :: string
  v_kind :: string
  v_hasInitializer :: bool
  v_line :: "nat option"

record importInfo =
  i_source :: string
  i_specifiers :: "importSpecifier list"

record exportInfo =
  e_type :: string
  e_line :: "nat option"
  e_name :: "string option"
  e_kind :: "string option"
  e_names :: "string option list option"

record conditionalInfo =
  cd_type :: string
  cd_line :: "nat option"
  cd_hasElse :: bool

record loopInfo =
  lp_type :: string
  lp_line :: "nat option"

record tryInfo =
  t_hasCatch :: bool
  t_hasFinally :: bool
  t_line :: "nat option"

record complexityMetrics =
  cyclomaticComplexity :: nat
  linesOfCode :: nat
  functionsCount :: nat
  classesCount :: nat
  maxNestingDepth :: int

record analysis =
  an_functions :: "functionInfo list"
  an_classes :: "classInfo list"
  an_variables :: "variableInfo list"
  an_imports :: "importInfo list"
  an_exports :: "exportInfo list"
  an_conditionals :: "conditionalInfo list"
  an_loops :: "loopInfo list"
  an_trycatch :: "tryInfo list"
  an_complexity :: complexityMetrics

text \<open>The object literal of lines 71-87; \<open>split('\n').length\<close> is one more than the number of line feeds.\<close>

definition initialAnalysis :: "string \<Rightarrow> analysis" where
  "initialAnalysis sourceCode =
     \<lparr> an_functions = [], an_classes = [], an_variables = [], an_imports = [],
       an_exports = [], an_conditionals = [], an_loops = [], an_trycatch = [],
       an_complexity = \<lparr> cyclomaticComplexity = 1,
                         linesOfCode = length (filter (\<lambda>c. c = CHR 0x0A) sourceCode) + 1,
                         functionsCount = 0, classesCount = 0, maxNestingDepth = 0 \<rparr> \<rparr>"

definition addComplexity :: "nat \<Rightarrow> analysis \<Rightarrow> analysis" where
  "addComplexity n a =
     a \<lparr> an_complexity := (an_complexity a)
            \<lparr> cyclomaticComplexity := cyclomaticComplexity (an_complexity a) + n \<rparr> \<rparr>"

section \<open>Extraction handlers (astParser.js, lines 194-337)\<close>

definition extractParam :: "paramNode \<Rightarrow> paramInfo" where
  "extractParam p =
     (case p of
        PIdentifier n \<Rightarrow> \<lparr> p_name = Some n, p_type = ''identifier'' \<rparr>
      | PAssignmentPattern n \<Rightarrow> \<lparr> p_name = n, p_type = ''default'' \<rparr>
      | PRestElement n \<Rightarrow> \<lparr> p_name = n, p_type = ''rest'' \<rparr>
      | PComplex \<Rightarrow> \<lparr> p_name = Some ''unknown'', p_type = ''complex'' \<rparr>)"

text \<open>
  The function-scoped traversal of lines 211-224: \<open>path.traverse\<close> visits every
  descendant of the function node, and each handler of the visitor adds one.
\<close>

fun localMatch :: "nodeKind \<Rightarrow> bool" where
  "localMatch (IfStatement b) = True"
| "localMatch SwitchCase = True"
| "localMatch ForStatement = True"
| "localMatch WhileStatement = True"
| "localMatch DoWhileStatement = True"
| "localMatch ConditionalExpression = True"
| "localMatch (LogicalExpression op) = (op = ''&&'' \<or> op = ''||'')"
| "localMatch k = False"

fun countLocal :: "node \<Rightarrow> nat" and countLocalList :: "node list \<Rightarrow> nat" where
  "countLocal (Node k l cs) = (if localMatch k then 1 else 0) + countLocalList cs"
| "countLocalList [] = 0"
| "countLocalList (c # cs) = countLocal c + countLocalList cs"

definition extractFunctionInfo ::
  "string option \<Rightarrow> paramNode list \<Rightarrow> bool \<Rightarrow> bool \<Rightarrow> nat option \<Rightarrow> node list \<Rightarrow> string
     \<Rightarrow> analysis \<Rightarrow> analysis" where
  "extractFunctionInfo ident params isAsync isGen line children type a =
     (let functionInfo =
            \<lparr> f_name = (case ident of Some n \<Rightarrow> n | None \<Rightarrow> ''<anonymous>''),
              f_type = type,
              f_params = map extractParam params,
              f_async = isAsync,
              f_generator = isGen,
              f_line = line,
              f_complexity = 1 \<rparr>;
          localComplexity = 1 + countLocalList children
      in a \<lparr> an_functions :=
                an_functions a @ [functionInfo \<lparr> f_complexity := localComplexity \<rparr>] \<rparr>)"

definition keyName :: "string option \<Rightarrow> string" where
  "keyName k = (case k of Some n \<Rightarrow> (if n = [] then ''<computed>'' else n) | None \<Rightarrow> ''<computed>'')"

fun memberMethods :: "classMember list \<Rightarrow> methodInfo list" where
  "memberMethods [] = []"
| "memberMethods (ClassMethod k kind st asy # ms) =
     \<lparr> m_name = keyName k, m_kind = kind, m_static = st, m_async = asy \<rparr> # memberMethods ms"
| "memberMethods (m # ms) = memberMethods ms"

fun memberProperties :: "classMember list \<Rightarrow> propertyInfo list" where
  "memberProperties [] = []"
| "memberProperties (ClassProperty k st # ms) =
     \<lparr> pr_name = keyName k, pr_static = st \<rparr> # memberProperties ms"
| "memberProperties (m # ms) = memberProperties ms"

definition extractClassInfo :: "classNode \<Rightarrow> nat option \<Rightarrow> analysis \<Rightarrow> analysis" where
  "extractClassInfo c line a =
     a \<lparr> an_classes := an_classes a @
           [\<lparr> c_name = (case cl_id c of Some n \<Rightarrow> n | None \<Rightarrow> ''<anonymous>''),
              c_superClass = cl_superClass c,
              c_methods = memberMethods (cl_members c),
              c_properties = memberProperties (cl_members c),
              c_line = line \<rparr>] \<rparr>"

fun declaredVariables :: "string \<Rightarrow> nat option \<Rightarrow> declarator list \<Rightarrow> variableInfo list" where
  "declaredVariables kind line [] = []"
| "declaredVariables kind line ((Some n, hasInit) # ds) =
     \<lparr> v_name = n, v_kind = kind, v_hasInitializer = hasInit, v_line = line \<rparr>
       # declaredVariables kind line ds"
| "declaredVariables kind line ((None, hasInit) # ds) = declaredVariables kind line ds"

definition extractVariableInfo :: "string \<Rightarrow> declarator list \<Rightarrow> nat option \<Rightarrow> analysis \<Rightarrow> analysis" where
  "extractVariableInfo kind ds line a =
     a \<lparr> an_variables := an_variables a @ declaredVariables kind line ds \<rparr>"

definition extractImportInfo :: "string \<Rightarrow> importSpecifier list \<Rightarrow> analysis \<Rightarrow> analysis" where
  "extractImportInfo src specs a =
     a \<lparr> an_imports := an_imports a @ [\<lparr> i_source = src, i_specifiers = specs \<rparr>] \<rparr>"

text \<open>
  \<open>extractExportInfo\<close> reads \<open>node.declaration.id.name\<close>: on an anonymous default
  export the \<open>id\<close> is null and the read throws a \<open>TypeError\<close>.
\<close>

definition nullNameError :: jsError where
  "nullNameError = JsError None ''Cannot read properties of null (reading 'name')''"

definition extractExportInfo ::
  "string \<Rightarrow> exportDecl option \<Rightarrow> nat option \<Rightarrow> analysis \<Rightarrow> jsError + analysis" where
  "extractExportInfo type decl line a =
     (let exportInfo = \<lparr> e_type = type, e_line = line, e_name = None, e_kind = None, e_names = None \<rparr>;
          push = (\<lambda>e. Inr (a \<lparr> an_exports := an_exports a @ [e] \<rparr>))
      in case decl of
           None \<Rightarrow> push exportInfo
         | Some (ExpFunction None) \<Rightarrow> Inl nullNameError
         | Some (ExpFunction (Some n)) \<Rightarrow> push (exportInfo \<lparr> e_name := Some n, e_kind := Some ''function'' \<rparr>)
         | Some (ExpClass None) \<Rightarrow> Inl nullNameError
         | Some (ExpClass (Some n)) \<Rightarrow> push (exportInfo \<lparr> e_name := Some n, e_kind := Some ''class'' \<rparr>)
         | Some (ExpVariable ns) \<Rightarrow> push (exportInfo \<lparr> e_kind := Some ''variable'', e_names := Some ns \<rparr>)
         | Some ExpOther \<Rightarrow> push exportInfo)"

definition extractConditionalInfo :: "string \<Rightarrow> bool \<Rightarrow> nat option \<Rightarrow> analysis \<Rightarrow> analysis" where
  "extractConditionalInfo type hasAlternate line a =
     a \<lparr> an_conditionals := an_conditionals a @
           [\<lparr> cd_type = type, cd_line = line, cd_hasElse = (type = ''if'' \<and> hasAlternate) \<rparr>] \<rparr>"

definition extractLoopInfo :: "string \<Rightarrow> nat option \<Rightarrow> analysis \<Rightarrow> analysis" where
  "extractLoopInfo type line a =
     a \<lparr> an_loops := an_loops a @ [\<lparr> lp_type = type, lp_line = line \<rparr>] \<rparr>"

text \<open>
  \<open>extractTryCatchInfo\<close>, lines 323-329, pushes onto \<open>analysis.tryCache\<close>. The
  analysis object of lines 71-87 has no such property (its list is \<open>trycatch\<close>), so
  \<open>analysis.tryCache\<close> is undefined and the call of \<open>push\<close> throws a \<open>TypeError\<close>.
\<close>

definition extractTryCatchInfo :: "bool \<Rightarrow> bool \<Rightarrow> nat option \<Rightarrow> analysis \<Rightarrow> jsError + analysis" where
  "extractTryCatchInfo hasCatch hasFinally line a =
     Inl (JsError None ''Cannot read properties of undefined (reading 'push')'')"

fun isBlockStatement :: "nodeKind \<Rightarrow> bool" where
  "isBlockStatement BlockStatement = True"
| "isBlockStatement (FunctionDeclaration f) = True"
| "isBlockStatement (IfStatement b) = True"
| "isBlockStatement ForStatement = True"
| "isBlockStatement WhileStatement = True"
| "isBlockStatement k = False"

section \<open>Traversal and entry points (astParser.js, lines 6-192)\<close>

record tstate =
  ts_analysis :: analysis
  ts_currentDepth :: int
  ts_maxDepth :: int

fun isSwitchCase :: "node \<Rightarrow> bool" where
  "isSwitchCase (Node k l cs) = (k = SwitchCase)"

text \<open>The handler registered for the node's type, lines 93-155.\<close>

definition visitNode :: "nodeKind \<Rightarrow> nat option \<Rightarrow> node list \<Rightarrow> analysis \<Rightarrow> jsError + analysis" where
  "visitNode k line cs a =
     (case k of
        FunctionDeclaration f \<Rightarrow>
          Inr (extractFunctionInfo (fn_id f) (fn_params f) (fn_async f) (fn_generator f) line cs ''declaration'' a)
      | FunctionExpression f \<Rightarrow>
          Inr (extractFunctionInfo (fn_id f) (fn_params f) (fn_async f) (fn_generator f) line cs ''expression'' a)
      | ArrowFunctionExpression f \<Rightarrow>
          Inr (extractFunctionInfo None (ar_params f) (ar_async f) False line cs ''arrow'' a)
      | ClassDeclaration c \<Rightarrow> Inr (extractClassInfo c line a)
      | VariableDeclaration kind ds \<Rightarrow> Inr (extractVariableInfo kind ds line a)
      | ImportDeclaration src specs \<Rightarrow> Inr (extractImportInfo src specs a)
      | ExportDeclaration type decl \<Rightarrow> extractExportInfo type decl line a
      | IfStatement alt \<Rightarrow> Inr (addComplexity 1 (extractConditionalInfo ''if'' alt line a))
      | SwitchStatement \<Rightarrow>
          Inr (addComplexity (length (filter isSwitchCase cs)) (extractConditionalInfo ''switch'' False line a))
      | ConditionalExpression \<Rightarrow> Inr (addComplexity 1 (extractConditionalInfo ''ternary'' True line a))
      | ForStatement \<Rightarrow> Inr (addComplexity 1 (extractLoopInfo ''for'' line a))
      | WhileStatement \<Rightarrow> Inr (addComplexity 1 (extractLoopInfo ''while'' line a))
      | DoWhileStatement \<Rightarrow> Inr (addComplexity 1 (extractLoopInfo ''do-while'' line a))
      | ForInStatement \<Rightarrow> Inr (addComplexity 1 (extractLoopInfo ''for-in'' line a))
      | ForOfStatement \<Rightarrow> Inr (addComplexity 1 (extractLoopInfo ''for-of'' line a))
      | TryStatement hasCatch hasFinally \<Rightarrow>
          (case extractTryCatchInfo hasCatch hasFinally line a of
             Inl e \<Rightarrow> Inl e
           | Inr a' \<Rightarrow> Inr (addComplexity 1 a'))
      | SwitchCase \<Rightarrow> Inr a
      | LogicalExpression op \<Rightarrow> Inr a
      | BlockStatement \<Rightarrow> Inr a
      | OtherNode \<Rightarrow> Inr a)"

text \<open>The generic \<open>enter\<close> and \<open>exit\<close> handlers, lines 157-167.\<close>

definition enterNode :: "nodeKind \<Rightarrow> tstate \<Rightarrow> tstate" where
  "enterNode k st =
     (if isBlockStatement k
      then st \<lparr> ts_currentDepth := ts_currentDepth st + 1,
                ts_maxDepth := max (ts_maxDepth st) (ts_currentDepth st + 1) \<rparr>
      else st)"

definition exitNode :: "nodeKind \<Rightarrow> tstate \<Rightarrow> tstate" where
  "exitNode k st =
     (if isBlockStatement k then st \<lparr> ts_currentDepth := ts_currentDepth st - 1 \<rparr> else st)"

text \<open>
  \<open>traverse\<close> of @babel/traverse is outside the repository. It is taken as documented:
  a depth-first walk that calls the handlers of a node on entering it, walks its
  children in order, and calls \<open>exit\<close> on leaving; an exception of a handler ends the
  walk. The handlers are taken to run with the parser object as \<open>this\<close>, and the
  predicates of @babel/types to test the node type they name.
\<close>

fun traverse :: "node \<Rightarrow> tstate \<Rightarrow> jsError + tstate"
  and traverseList :: "node list \<Rightarrow> tstate \<Rightarrow> jsError + tstate" where
  "traverse (Node k line cs) st =
     (let st1 = enterNode k st in
      case visitNode k line cs (ts_analysis st1) of
        Inl e \<Rightarrow> Inl e
      | Inr a \<Rightarrow>
          (case traverseList cs (st1 \<lparr> ts_analysis := a \<rparr>) of
             Inl e \<Rightarrow> Inl e
           | Inr st2 \<Rightarrow> Inr (exitNode k st2)))"
| "traverseList [] st = Inr st"
| "traverseList (c # cs) st =
     (case traverse c st of
        Inl e \<Rightarrow> Inl e
      | Inr st' \<Rightarrow> traverseList cs st')"

record metadata =
  md_language :: string
  md_parserVersion :: string
  md_analysisTimestamp :: string
  md_codeLength :: nat
  md_linesOfCode :: nat

record analysisResult =
  r_ast :: node
  r_analysis :: analysis
  r_metadata :: metadata

text \<open>
  What the analyzer takes from its surroundings: the size limit set by the constructor,
  the parser of @babel/parser (an exception or a tree), its version string, and the
  clock read for the timestamp.
\<close>

record parserEnv =
  maxCodeSize :: int
  parse :: "string \<Rightarrow> jsError + node"
  parserVersion :: string
  env_now :: string

text \<open>
  Line 8: \<open>parseInt(process.env.MAX_CODE_SIZE) || 1048576\<close>, on the result of
  \<open>parseInt\<close> (\<open>None\<close> for \<open>NaN\<close>).
\<close>

definition configuredMaxCodeSize :: "int option \<Rightarrow> int" where
  "configuredMaxCodeSize parsed =
     (case parsed of None \<Rightarrow> 1048576 | Some n \<Rightarrow> (if n = 0 then 1048576 else n))"

definition finalizeAnalysis :: "tstate \<Rightarrow> analysis" where
  "finalizeAnalysis st =
     (let a = ts_analysis st in
      a \<lparr> an_complexity := (an_complexity a)
            \<lparr> maxNestingDepth := ts_maxDepth st,
              functionsCount := length (an_functions a),
              classesCount := length (an_classes a) \<rparr> \<rparr>)"

text \<open>The \<open>catch\<close> of lines 186-191.\<close>

definition rethrowParse :: "jsError \<Rightarrow> jsError" where
  "rethrowParse e =
     (if code e = Some ''BABEL_PARSE_ERROR''
      then JsError None (''Erro de sintaxe: '' @ message e)
      else e)"

definition analyzeJavaScript :: "parserEnv \<Rightarrow> string \<Rightarrow> jsError + analysisResult" where
  "analyzeJavaScript env sourceCode =
     (case parse env sourceCode of
        Inl e \<Rightarrow> Inl (rethrowParse e)
      | Inr ast \<Rightarrow>
          (case traverse ast \<lparr> ts_analysis = initialAnalysis sourceCode,
                               ts_currentDepth = 0, ts_maxDepth = 0 \<rparr> of
             Inl e \<Rightarrow> Inl (rethrowParse e)
           | Inr st \<Rightarrow>
               (let a = finalizeAnalysis st in
                Inr \<lparr> r_ast = ast,
                      r_analysis = a,
                      r_metadata = \<lparr> md_language = ''javascript'',
                                      md_parserVersion = parserVersion env,
                                      md_analysisTimestamp = env_now env,
                                      md_codeLength = length sourceCode,
                                      md_linesOfCode = linesOfCode (an_complexity a) \<rparr> \<rparr>)))"

text \<open>The argument of \<open>analyzeCode\<close>: a string, or a value of another type.\<close>

datatype sourceArg = SrcString string | SrcOther

definition supportedLanguages :: "string list" where
  "supportedLanguages = [''javascript'']"

definition msgInvalidSource :: string where
  "msgInvalidSource = ''C'' @ [CHR 0xF3] @ ''digo fonte inv'' @ [CHR 0xE1] @ ''lido''"

definition msgTooLarge :: "int \<Rightarrow> string" where
  "msgTooLarge n =
     ''C'' @ [CHR 0xF3] @ ''digo muito grande (m'' @ [CHR 0xE1] @ ''ximo '' @ showInt n @ '' caracteres)''"

definition msgUnsupported :: "string \<Rightarrow> string" where
  "msgUnsupported l = ''Linguagem n'' @ [CHR 0xE3] @ ''o suportada: '' @ l"

definition msgNotImplemented :: "string \<Rightarrow> string" where
  "msgNotImplemented l =
     ''An'' @ [CHR 0xE1] @ ''lise n'' @ [CHR 0xE3] @ ''o implementada para: '' @ l"

definition msgAnalysisPrefix :: string where
  "msgAnalysisPrefix = ''Erro na an'' @ [CHR 0xE1] @ ''lise: ''"

text \<open>
  \<open>analyzeCode\<close>, lines 17-42. \<open>language\<close> is \<open>None\<close> when the caller leaves the
  argument out and the default \<open>'javascript'\<close> applies. Every exception of the body is
  caught and thrown again with the prefix of line 40.
\<close>

definition analyzeCodeBody :: "parserEnv \<Rightarrow> sourceArg \<Rightarrow> string \<Rightarrow> jsError + analysisResult" where
  "analyzeCodeBody env sourceCode lang =
     (case sourceCode of
        SrcOther \<Rightarrow> Inl (JsError None msgInvalidSource)
      | SrcString s \<Rightarrow>
          if s = [] then Inl (JsError None msgInvalidSource)
          else if int (length s) > maxCodeSize env then Inl (JsError None (msgTooLarge (maxCodeSize env)))
          else if lang \<notin> set supportedLanguages then Inl (JsError None (msgUnsupported lang))
          else if lang = ''javascript'' then analyzeJavaScript env s
          else Inl (JsError None (msgNotImplemented lang)))"

definition analyzeCode :: "parserEnv \<Rightarrow> sourceArg \<Rightarrow> string option \<Rightarrow> jsError + analysisResult" where
  "analyzeCode env sourceCode language =
     (case analyzeCodeBody env sourceCode (case language of None \<Rightarrow> ''javascript'' | Some l \<Rightarrow> l) of
        Inl e \<Rightarrow> Inl (JsError None (msgAnalysisPrefix @ message e))
      | Inr r \<Rightarrow> Inr r)"

section \<open>Heuristic value generator (testGenerator.js)\<close>

text \<open>\<open>generateSampleValueByName\<close>, lines 263-305.\<close>

definition generateSampleValueByName :: "string \<Rightarrow> jsval" where
  "generateSampleValueByName paramName =
     (let name = toLowerCase paramName in
      if includes_str name ''id'' \<or> includes_str name ''index'' \<or> includes_str name ''count''
        then JNum 1 0
      else if includes_str name ''age'' \<or> includes_str name ''year''
        then JNum 25 0
      else if includes_str name ''price'' \<or> includes_str name ''amount'' \<or> includes_str name ''value''
        then JNum 1005 1
      else if includes_str name ''name'' \<or> includes_str name ''title''
        then JStr ''Test Name''
      else if includes_str name ''email''
        then JStr ''test@example.com''
      else if includes_str name ''url'' \<or> includes_str name ''link''
        then JStr ''https://example.com''
      else if includes_str name ''password''
        then JStr ''Test123!''
      else if includes_str name ''is'' \<or> includes_str name ''has'' \<or> includes_str name ''can''
        then JBool True
      else if includes_str name ''list'' \<or> includes_str name ''array'' \<or> includes_str name ''items''
        then JArr [JStr ''item1'', JStr ''item2'']
      else if includes_str name ''user'' \<or> includes_str name ''person''
        then JObj [(''id'', JNum 1 0), (''name'', JStr ''Test User'')]
      else if includes_str name ''config'' \<or> includes_str name ''options''
        then JObj [(''option1'', JBool True), (''option2'', JStr ''value'')]
      else JStr ''testValue'')"

text \<open>
  \<open>generateHighQualityValue\<close>, lines 334-344. The date rule evaluates
  \<open>new Date().toISOString()\<close>: the wall clock is an input of the function, given here
  as the ISO text of the current instant.
\<close>

definition generateHighQualityValue :: "string \<Rightarrow> string \<Rightarrow> jsval" where
  "generateHighQualityValue nowISO paramName =
     (let name = toLowerCase paramName in
      if includes_str name ''email'' then JStr ''user@domain.com''
      else if includes_str name ''phone'' then JStr ''+1234567890''
      else if includes_str name ''date'' then JStr nowISO
      else if includes_str name ''url'' then JStr ''https://validurl.com/path''
      else if includes_str name ''name'' then JStr ''Valid Name''
      else JStr ''validValue'')"

section \<open>Template renderer (testGenerator.js, lines 458-487)\<close>

text \<open>
  The replacement text of \<open>String.prototype.replace\<close> for a pattern without capture
  groups: \<open>$$\<close> stands for a dollar sign, \<open>$&\<close> for the matched text, \<open>$`\<close> for the
  text before the match and \<open>$'\<close> for the text after it; any other character, a
  dollar sign included, stands for itself.
\<close>

fun expandReplacement :: "string \<Rightarrow> string \<Rightarrow> string \<Rightarrow> string \<Rightarrow> string" where
  "expandReplacement matched scanned rest [] = []"
| "expandReplacement matched scanned rest [c] = [c]"
| "expandReplacement matched scanned rest (c # d # r) =
     (if c = CHR ''$'' \<and> d = CHR ''$'' then CHR ''$'' # expandReplacement matched scanned rest r
      else if c = CHR ''$'' \<and> d = CHR ''&'' then matched @ expandReplacement matched scanned rest r
      else if c = CHR ''$'' \<and> d = CHR 0x60 then scanned @ expandReplacement matched scanned rest r
      else if c = CHR ''$'' \<and> d = CHR 0x27 then rest @ expandReplacement matched scanned rest r
      else c # expandReplacement matched scanned rest (d # r))"

text \<open>
  \<open>populated.replace(regex, value)\<close> with the global flag: the matches of the
  pattern are found from left to right without overlap in the text the call is made
  on, and each is replaced. \<open>scanned\<close> is the text to the left of the position reached.
\<close>

function replaceAllFrom :: "string \<Rightarrow> string \<Rightarrow> string \<Rightarrow> string \<Rightarrow> string" where
  "replaceAllFrom pat rep scanned [] = []"
| "replaceAllFrom pat rep scanned (c # cs) =
     (if pat \<noteq> [] \<and> prefix pat (c # cs)
      then expandReplacement pat scanned (drop (length pat) (c # cs)) rep
             @ replaceAllFrom pat rep (scanned @ pat) (drop (length pat) (c # cs))
      else c # replaceAllFrom pat rep (scanned @ [c]) cs)"
  by pat_completeness auto
termination
  by (relation "measure (\<lambda>(pat, rep, scanned, rest). length rest)") auto

text \<open>
  \<open>populateTemplate\<close>, lines 478-487. \<open>data\<close> lists the keys of the object in the
  order of \<open>Object.keys\<close> with their values. The pattern \<open>new RegExp(`{{${key}}}`, 'g')\<close>
  is modelled for keys that are identifier names, where it matches the text
  \<open>{{key}}\<close> literally.
\<close>

definition placeholder :: "string \<Rightarrow> string" where
  "placeholder key = ''{{'' @ key @ ''}}''"

definition populateTemplate :: "string \<Rightarrow> (string \<times> string) list \<Rightarrow> string" where
  "populateTemplate template data =
     foldl (\<lambda>populated (key, v). replaceAllFrom (placeholder key) v [] populated) template data"

definition nl :: string where
  "nl = [CHR 0x0A]"

definition dq :: string where
  "dq = [CHR 0x22]"

text \<open>\<open>getDefaultTemplates\<close>, lines 458-476.\<close>

definition defaultUnitTemplate :: string where
  "defaultUnitTemplate =
     ''describe('' @ dq @ ''{{functionName}}'' @ dq @ '', () => {'' @ nl @
     ''  test('' @ dq @ ''{{testDescription}}'' @ dq @ '', () => {'' @ nl @
     ''    const input = {{inputData}};'' @ nl @
     ''    const expected = {{expectedOutput}};'' @ nl @
     ''    '' @ nl @
     ''    const result = {{functionName}}({{inputParams}});'' @ nl @
     ''    '' @ nl @
     ''    expect(result).{{assertion}}(expected);'' @ nl @
     ''  });'' @ nl @
     ''});''"

definition defaultEdgeCaseTemplate :: string where
  "defaultEdgeCaseTemplate =
     ''describe('' @ dq @ ''{{functionName}} - Edge Cases'' @ dq @ '', () => {'' @ nl @
     ''  test('' @ dq @ ''should handle {{edgeCase}}'' @ dq @ '', () => {'' @ nl @
     ''    expect(() => {{functionName}}({{inputData}})).{{expectation}};'' @ nl @
     ''  });'' @ nl @
     ''});''"

definition getDefaultTemplates :: "string \<Rightarrow> string option" where
  "getDefaultTemplates kind =
     (if kind = ''unit'' then Some defaultUnitTemplate
      else if kind = ''edge_case'' then Some defaultEdgeCaseTemplate
      else None)"

section \<open>JSON text of a value\<close>

text \<open>
  \<open>JSON.stringify\<close> on the values the generator builds: a property whose value is
  undefined is left out of an object, undefined and NaN are \<open>null\<close> inside an array.
  Numbers are printed in positional notation, the form JavaScript uses between
  \<open>1e-6\<close> and \<open>1e21\<close>.
\<close>

definition hexDigit :: "nat \<Rightarrow> char" where
  "hexDigit n = (if n < 10 then char_of (48 + n) else char_of (87 + n))"

definition jsonEscape :: "char \<Rightarrow> string" where
  "jsonEscape c =
     (let n = (of_char c :: nat) in
      if n = 0x22 then [CHR 0x5C, CHR 0x22]
      else if n = 0x5C then [CHR 0x5C, CHR 0x5C]
      else if n = 8 then [CHR 0x5C, CHR ''b'']
      else if n = 12 then [CHR 0x5C, CHR ''f'']
      else if n = 10 then [CHR 0x5C, CHR ''n'']
      else if n = 13 then [CHR 0x5C, CHR ''r'']
      else if n = 9 then [CHR 0x5C, CHR ''t'']
      else if n < 32 then [CHR 0x5C, CHR ''u'', CHR ''0'', CHR ''0'', hexDigit (n div 16), hexDigit (n mod 16)]
      else [c])"

definition jsonString :: "string \<Rightarrow> string" where
  "jsonString s = dq @ concat (map jsonEscape s) @ dq"

fun padDigits :: "nat \<Rightarrow> string \<Rightarrow> string" where
  "padDigits n s = replicate (n - length s) (CHR ''0'') @ s"

fun showNum :: "int \<Rightarrow> nat \<Rightarrow> string" where
  "showNum m 0 = showInt m"
| "showNum m (Suc e) =
     (if m mod 10 = 0 then showNum (m div 10) e
      else (if m < 0 then ''-'' else [])
           @ showNat (nat \<bar>m\<bar> div 10 ^ Suc e) @ ''.''
           @ padDigits (Suc e) (showNat (nat \<bar>m\<bar> mod 10 ^ Suc e)))"

fun joinWith :: "string \<Rightarrow> string list \<Rightarrow> string" where
  "joinWith sep [] = []"
| "joinWith sep [x] = x"
| "joinWith sep (x # y # ys) = x @ sep @ joinWith sep (y # ys)"

fun stringify :: "jsval \<Rightarrow> string"
  and stringifyElems :: "jsval list \<Rightarrow> string list"
  and stringifyProps :: "(string \<times> jsval) list \<Rightarrow> string list" where
  "stringify JNull = ''null''"
| "stringify JUndefined = ''null''"
| "stringify JNaN = ''null''"
| "stringify (JBool b) = (if b then ''true'' else ''false'')"
| "stringify (JNum m e) = showNum m e"
| "stringify (JStr s) = jsonString s"
| "stringify (JArr vs) = ''['' @ joinWith '','' (stringifyElems vs) @ '']''"
| "stringify (JObj ps) = ''{'' @ joinWith '','' (stringifyProps ps) @ ''}''"
| "stringifyElems [] = []"
| "stringifyElems (v # vs) = stringify v # stringifyElems vs"
| "stringifyProps [] = []"
| "stringifyProps ((k, v) # ps) =
     (if v = JUndefined then stringifyProps ps
      else (jsonString k @ '':'' @ stringify v) # stringifyProps ps)"

section \<open>Test case synthesizer (testGenerator.js, lines 25-261 and 307-436)\<close>

record testCase =
  analysis_id :: string
  function_name :: string
  test_type :: string
  description :: string
  input_data :: jsval
  expected_output :: jsval
  test_code :: string
  priority :: nat
  status :: string

text \<open>
  What the synthesizer takes from its surroundings: the templates that
  \<open>getTestTemplates\<close> answers with (the rows of the database, or the defaults when
  the query fails), the outcomes of \<open>Math.random() > 0.5\<close> in the order of the calls,
  and the clock in the order it is read.
\<close>

record genEnv =
  templates :: "string \<Rightarrow> string option"
  coin :: "nat \<Rightarrow> bool"
  clock :: "nat \<Rightarrow> string"

text \<open>How many random numbers have been drawn and how often the clock has been read.\<close>

record genState =
  g_draws :: nat
  g_reads :: nat

text \<open>\<open>obj[key] = v\<close> on an object whose property names are identifier names.\<close>

fun objSet :: "(string \<times> jsval) list \<Rightarrow> string \<Rightarrow> jsval \<Rightarrow> (string \<times> jsval) list" where
  "objSet [] key v = [(key, v)]"
| "objSet ((k, w) # ps) key v = (if k = key then (k, v) # ps else (k, w) # objSet ps key v)"

text \<open>A name that may be undefined, as a property key or inside a template literal.\<close>

definition nameText :: "string option \<Rightarrow> string" where
  "nameText n = (case n of Some s \<Rightarrow> s | None \<Rightarrow> ''undefined'')"

definition lowerCaseError :: jsError where
  "lowerCaseError = JsError None ''Cannot read properties of undefined (reading 'toLowerCase')''"

text \<open>\<open>generateInputData\<close>, lines 241-261; \<open>index\<close> is the position of the parameter.\<close>

fun inputDataFrom :: "nat \<Rightarrow> paramInfo list \<Rightarrow> (string \<times> jsval) list \<Rightarrow> jsError + (string \<times> jsval) list" where
  "inputDataFrom index [] inputData = Inr inputData"
| "inputDataFrom index (param # ps) inputData =
     (if p_type param = ''identifier'' then
        (case p_name param of
           None \<Rightarrow> Inl lowerCaseError
         | Some n \<Rightarrow> inputDataFrom (Suc index) ps (objSet inputData n (generateSampleValueByName n)))
      else if p_type param = ''default'' then
        inputDataFrom (Suc index) ps (objSet inputData (nameText (p_name param)) (JStr ''DEFAULT_VALUE''))
      else if p_type param = ''rest'' then
        inputDataFrom (Suc index) ps
          (objSet inputData (nameText (p_name param)) (JArr [JNum 1 0, JNum 2 0, JNum 3 0]))
      else
        inputDataFrom (Suc index) ps
          (objSet inputData (nameText (p_name param)) (JStr (''param'' @ showNat index))))"

definition generateInputData :: "paramInfo list \<Rightarrow> jsError + (string \<times> jsval) list" where
  "generateInputData params = inputDataFrom 0 params []"

text \<open>\<open>generateInvalidParamData\<close>, lines 307-315.\<close>

definition invalidValues :: "jsval list" where
  "invalidValues = [JNull, JUndefined, JStr [], JNum 0 0, JNum (- 1) 0, JNaN, JObj [], JArr [], JBool False]"

definition generateInvalidParamData :: "paramInfo list \<Rightarrow> nat \<Rightarrow> jsError + (string \<times> jsval) list" where
  "generateInvalidParamData params targetIndex =
     (case generateInputData params of
        Inl e \<Rightarrow> Inl e
      | Inr inputData \<Rightarrow>
          Inr (objSet inputData (nameText (p_name (params ! targetIndex)))
                 (invalidValues ! (targetIndex mod length invalidValues))))"

text \<open>\<open>generateNullParamData\<close>, lines 317-323: one random number for each parameter.\<close>

fun nullDataFrom :: "(nat \<Rightarrow> bool) \<Rightarrow> nat \<Rightarrow> paramInfo list \<Rightarrow> (string \<times> jsval) list \<Rightarrow> (string \<times> jsval) list" where
  "nullDataFrom rnd k [] inputData = inputData"
| "nullDataFrom rnd k (param # ps) inputData =
     nullDataFrom rnd (Suc k) ps
       (objSet inputData (nameText (p_name param)) (if rnd k then JNull else JUndefined))"

definition generateNullParamData :: "genEnv \<Rightarrow> genState \<Rightarrow> paramInfo list \<Rightarrow> (string \<times> jsval) list \<times> genState" where
  "generateNullParamData env st params =
     (nullDataFrom (coin env) (g_draws st) params [], st \<lparr> g_draws := g_draws st + length params \<rparr>)"

text \<open>
  \<open>generateValidParamData\<close>, lines 325-332. \<open>generateHighQualityValue\<close> lower-cases
  the name of the target parameter, which throws when that name is undefined; the
  clock is read when the date rule is reached.
\<close>

definition readsClock :: "string \<Rightarrow> bool" where
  "readsClock paramName =
     (let name = toLowerCase paramName in
      \<not> includes_str name ''email'' \<and> \<not> includes_str name ''phone'' \<and> includes_str name ''date'')"

definition generateValidParamData ::
  "genEnv \<Rightarrow> genState \<Rightarrow> paramInfo list \<Rightarrow> nat \<Rightarrow> jsError + ((string \<times> jsval) list \<times> genState)" where
  "generateValidParamData env st params targetIndex =
     (case generateInputData params of
        Inl e \<Rightarrow> Inl e
      | Inr inputData \<Rightarrow>
          (case p_name (params ! targetIndex) of
             None \<Rightarrow> Inl lowerCaseError
           | Some n \<Rightarrow>
               Inr (objSet inputData n (generateHighQualityValue (clock env (g_reads st)) n),
                    if readsClock n then st \<lparr> g_reads := g_reads st + 1 \<rparr> else st)))"

text \<open>Sequencing of steps that may throw.\<close>

definition bindE :: "'e + 'a \<Rightarrow> ('a \<Rightarrow> 'e + 'b) \<Rightarrow> 'e + 'b" where
  "bindE m f = (case m of Inl e \<Rightarrow> Inl e | Inr x \<Rightarrow> f x)"

text \<open>\<open>generateExpectedOutput\<close>, lines 346-379.\<close>

definition generateExpectedOutput :: "functionInfo \<Rightarrow> bool \<Rightarrow> jsval" where
  "generateExpectedOutput func isAsync =
     (let output0 = [(''type'', JStr ''unknown''),
                     (''description'', JStr (''Sa'' @ [CHR 0xED] @ ''da esperada de '' @ f_name func))];
          name = toLowerCase (f_name func);
          output =
            (if includes_str name ''get'' \<or> includes_str name ''find'' then
               objSet (objSet output0 ''type'' (JStr ''object_or_null'')) ''value''
                 (JObj [(''id'', JNum 1 0), (''data'', JStr ''example'')])
             else if includes_str name ''is'' \<or> includes_str name ''has'' \<or> includes_str name ''can'' then
               objSet (objSet output0 ''type'' (JStr ''boolean'')) ''value'' (JBool True)
             else if includes_str name ''count'' \<or> includes_str name ''length'' then
               objSet (objSet output0 ''type'' (JStr ''number'')) ''value'' (JNum 0 0)
             else if includes_str name ''list'' \<or> includes_str name ''all'' then
               objSet (objSet output0 ''type'' (JStr ''array'')) ''value'' (JArr [])
             else if includes_str name ''create'' \<or> includes_str name ''save'' then
               objSet (objSet output0 ''type'' (JStr ''object'')) ''value''
                 (JObj [(''id'', JNum 1 0), (''created'', JBool True)])
             else output0)
      in if isAsync then JObj [(''type'', JStr ''promise''), (''resolves'', JObj output)]
         else JObj output)"

text \<open>\<open>generateErrorExpectation\<close>, lines 381-388.\<close>

definition generateErrorExpectation :: "functionInfo \<Rightarrow> jsval" where
  "generateErrorExpectation func =
     JObj [(''type'', JStr ''error''),
           (''shouldThrow'', JBool True),
           (''errorType'', JStr ''Error''),
           (''message'', JStr (''Erro esperado em '' @ f_name func @ '' com par'' @ [CHR 0xE2]
                               @ ''metros inv'' @ [CHR 0xE1] @ ''lidos''))]"

text \<open>\<open>calculatePriority\<close>, lines 390-394, with the priorities of lines 12-16.\<close>

definition calculatePriority :: "functionInfo \<Rightarrow> nat" where
  "calculatePriority func =
     (if f_complexity func \<ge> 10 then 3 else if f_complexity func \<ge> 5 then 2 else 1)"

text \<open>
  \<open>generateTestCode\<close>, lines 396-436. \<open>Array.prototype.join\<close> prints an undefined
  element as the empty text. In the basic case a missing \<open>unit\<close> template is the
  undefined value, whose \<open>replace\<close> cannot be called.
\<close>

definition replaceError :: jsError where
  "replaceError = JsError None ''Cannot read properties of undefined (reading 'replace')''"

definition joinedName :: "string option \<Rightarrow> string" where
  "joinedName n = (case n of Some s \<Rightarrow> s | None \<Rightarrow> [])"

definition invalidArgs :: "nat \<Rightarrow> nat \<Rightarrow> string list" where
  "invalidArgs n paramIndex =
     map (\<lambda>i. if i = paramIndex then ''null'' else [CHR 0x27] @ ''validValue'' @ [CHR 0x27]) [0..<n]"

text \<open>The template literals of lines 411-419, 423-431 and 434.\<close>

definition asyncTestCode :: "string \<Rightarrow> string \<Rightarrow> string \<Rightarrow> string" where
  "asyncTestCode name input args =
     ''describe('' @ dq @ name @ dq @ '', () => {'' @ nl @
     ''  test('' @ dq @ ''deve executar fun'' @ [CHR 0xE7, CHR 0xE3] @ ''o async corretamente''
       @ dq @ '', async () => {'' @ nl @
     ''    const input = '' @ input @ '';'' @ nl @
     ''    '' @ nl @
     ''    const result = await '' @ name @ ''('' @ args @ '');'' @ nl @
     ''    '' @ nl @
     ''    expect(result).toBeDefined();'' @ nl @
     ''  });'' @ nl @
     ''});''"

definition invalidParamTestCode :: "string \<Rightarrow> string \<Rightarrow> string \<Rightarrow> string" where
  "invalidParamTestCode name paramName args =
     ''describe('' @ dq @ name @ dq @ '', () => {'' @ nl @
     ''  test('' @ dq @ ''deve lidar com par'' @ [CHR 0xE2] @ ''metro '' @ paramName
       @ '' inv'' @ [CHR 0xE1] @ ''lido'' @ dq @ '', () => {'' @ nl @
     ''    expect(() => {'' @ nl @
     ''      '' @ name @ ''('' @ args @ '');'' @ nl @
     ''    }).toThrow();'' @ nl @
     ''  });'' @ nl @
     ''});''"

definition defaultTestCode :: "string \<Rightarrow> string \<Rightarrow> string" where
  "defaultTestCode name testType =
     ''// C'' @ [CHR 0xF3] @ ''digo de teste para '' @ name @ '' - '' @ testType"

definition generateTestCode :: "genEnv \<Rightarrow> functionInfo \<Rightarrow> string \<Rightarrow> nat \<Rightarrow> jsError + string" where
  "generateTestCode env func testType paramIndex =
     (if testType = ''basic'' then
        bindE (generateInputData (f_params func)) (\<lambda>inputData.
          case templates env ''unit'' of
            None \<Rightarrow> Inl replaceError
          | Some template \<Rightarrow>
              Inr (populateTemplate template
                     [(''functionName'', f_name func),
                      (''testDescription'', ''deve executar '' @ f_name func @ '' corretamente''),
                      (''inputData'', stringify (JObj inputData)),
                      (''inputParams'', joinWith '', '' (map (\<lambda>p. joinedName (p_name p)) (f_params func))),
                      (''assertion'', ''toBeDefined''),
                      (''expectedOutput'', ''result'')]))
      else if testType = ''async'' then
        bindE (generateInputData (f_params func)) (\<lambda>inputData.
          Inr (asyncTestCode (f_name func) (stringify (JObj inputData))
                 (joinWith '', '' (map (\<lambda>p. ''input.'' @ nameText (p_name p)) (f_params func)))))
      else if testType = ''invalid_param'' then
        Inr (invalidParamTestCode (f_name func) (nameText (p_name (f_params func ! paramIndex)))
               (joinWith '', '' (invalidArgs (length (f_params func)) paramIndex)))
      else
        Inr (defaultTestCode (f_name func) testType))"

text \<open>
  The five descriptors of \<open>generateFunctionTests\<close>, lines 57-67, 73-83, 86-96,
  101-111 and 116-126, from the input data and the test code computed for them.
\<close>

definition basicTest :: "string \<Rightarrow> functionInfo \<Rightarrow> (string \<times> jsval) list \<Rightarrow> string \<Rightarrow> testCase" where
  "basicTest analysisId func inputData testCode =
     \<lparr> analysis_id = analysisId,
       function_name = f_name func,
       test_type = ''unit'',
       description = ''Teste b'' @ [CHR 0xE1] @ ''sico para a fun'' @ [CHR 0xE7, CHR 0xE3] @ ''o '' @ f_name func,
       input_data = JObj inputData,
       expected_output = generateExpectedOutput func False,
       test_code = testCode,
       priority = calculatePriority func,
       status = ''generated'' \<rparr>"

definition validParamTest ::
  "string \<Rightarrow> functionInfo \<Rightarrow> nat \<Rightarrow> (string \<times> jsval) list \<Rightarrow> string \<Rightarrow> testCase" where
  "validParamTest analysisId func i inputData testCode =
     \<lparr> analysis_id = analysisId,
       function_name = f_name func,
       test_type = ''unit'',
       description = ''Teste com par'' @ [CHR 0xE2] @ ''metro ''
                       @ nameText (p_name (f_params func ! i)) @ '' v'' @ [CHR 0xE1] @ ''lido'',
       input_data = JObj inputData,
       expected_output = generateExpectedOutput func False,
       test_code = testCode,
       priority = 2,
       status = ''generated'' \<rparr>"

definition invalidParamTest ::
  "string \<Rightarrow> functionInfo \<Rightarrow> nat \<Rightarrow> (string \<times> jsval) list \<Rightarrow> string \<Rightarrow> testCase" where
  "invalidParamTest analysisId func i inputData testCode =
     \<lparr> analysis_id = analysisId,
       function_name = f_name func,
       test_type = ''edge_case'',
       description = ''Teste com par'' @ [CHR 0xE2] @ ''metro ''
                       @ nameText (p_name (f_params func ! i)) @ '' inv'' @ [CHR 0xE1] @ ''lido'',
       input_data = JObj inputData,
       expected_output = generateErrorExpectation func,
       test_code = testCode,
       priority = 3,
       status = ''generated'' \<rparr>"

definition nullTest :: "string \<Rightarrow> functionInfo \<Rightarrow> (string \<times> jsval) list \<Rightarrow> string \<Rightarrow> testCase" where
  "nullTest analysisId func inputData testCode =
     \<lparr> analysis_id = analysisId,
       function_name = f_name func,
       test_type = ''negative'',
       description = ''Teste com par'' @ [CHR 0xE2] @ ''metros null/undefined para '' @ f_name func,
       input_data = JObj inputData,
       expected_output = generateErrorExpectation func,
       test_code = testCode,
       priority = 3,
       status = ''generated'' \<rparr>"

definition asyncTest :: "string \<Rightarrow> functionInfo \<Rightarrow> (string \<times> jsval) list \<Rightarrow> string \<Rightarrow> testCase" where
  "asyncTest analysisId func inputData testCode =
     \<lparr> analysis_id = analysisId,
       function_name = f_name func,
       test_type = ''unit'',
       description = ''Teste ass'' @ [CHR 0xED] @ ''ncrono para '' @ f_name func,
       input_data = JObj inputData,
       expected_output = generateExpectedOutput func True,
       test_code = testCode,
       priority = 2,
       status = ''generated'' \<rparr>"

text \<open>The loop of lines 70-98 over the parameter positions.\<close>

fun paramTests ::
  "genEnv \<Rightarrow> functionInfo \<Rightarrow> string \<Rightarrow> nat list \<Rightarrow> genState \<Rightarrow> jsError + (testCase list \<times> genState)" where
  "paramTests env func analysisId [] st = Inr ([], st)"
| "paramTests env func analysisId (i # rest) st =
     bindE (generateValidParamData env st (f_params func) i) (\<lambda>(validData, st1).
     bindE (generateTestCode env func ''valid_param'' i) (\<lambda>validCode.
     bindE (generateInvalidParamData (f_params func) i) (\<lambda>invalidData.
     bindE (generateTestCode env func ''invalid_param'' i) (\<lambda>invalidCode.
     bindE (paramTests env func analysisId rest st1) (\<lambda>(tests, st2).
       Inr (validParamTest analysisId func i validData validCode
            # invalidParamTest analysisId func i invalidData invalidCode
            # tests, st2))))))"

text \<open>\<open>generateFunctionTests\<close>, lines 54-131.\<close>

definition generateFunctionTests ::
  "genEnv \<Rightarrow> genState \<Rightarrow> functionInfo \<Rightarrow> string \<Rightarrow> jsError + (testCase list \<times> genState)" where
  "generateFunctionTests env st func analysisId =
     bindE (generateInputData (f_params func)) (\<lambda>basicData.
     bindE (generateTestCode env func ''basic'' 0) (\<lambda>basicCode.
     bindE (paramTests env func analysisId [0..<length (f_params func)] st) (\<lambda>(perParam, st1).
     bindE (if length (f_params func) > 0
            then bindE (generateTestCode env func ''null_params'' 0) (\<lambda>nullCode.
                   let (nullData, st2) = generateNullParamData env st1 (f_params func) in
                   Inr ([nullTest analysisId func nullData nullCode], st2))
            else Inr ([], st1)) (\<lambda>(nullTests, st2).
     bindE (if f_async func
            then bindE (generateInputData (f_params func)) (\<lambda>asyncData.
                 bindE (generateTestCode env func ''async'' 0) (\<lambda>asyncCode.
                   Inr [asyncTest analysisId func asyncData asyncCode]))
            else Inr []) (\<lambda>asyncTests.
       Inr ([basicTest analysisId func basicData basicCode] @ perParam @ nullTests @ asyncTests, st2))))))"

text \<open>\<open>generateClassTests\<close>, lines 133-167, with the stubs of lines 489-515.\<close>

fun methodTests :: "classInfo \<Rightarrow> string \<Rightarrow> methodInfo list \<Rightarrow> testCase list" where
  "methodTests cls analysisId [] = []"
| "methodTests cls analysisId (method # ms) =
     (if m_kind method = ''constructor'' then methodTests cls analysisId ms
      else \<lparr> analysis_id = analysisId,
              function_name = c_name cls @ ''.'' @ m_name method,
              test_type = ''unit'',
              description = ''Teste do m'' @ [CHR 0xE9] @ ''todo '' @ m_name method @ '' da classe '' @ c_name cls,
              input_data = JObj [(''methodInput'', JStr ''testData'')],
              expected_output = JObj [(''methodOutput'', JStr ''expected'')],
              test_code = ''// Teste de m'' @ [CHR 0xE9] @ ''todo '' @ c_name cls @ ''.'' @ m_name method,
              priority = (if m_kind method = ''constructor'' then 3 else 2),
              status = ''generated'' \<rparr>
           # methodTests cls analysisId ms)"

definition generateClassTests :: "classInfo \<Rightarrow> string \<Rightarrow> testCase list" where
  "generateClassTests cls analysisId =
     \<lparr> analysis_id = analysisId,
       function_name = c_name cls,
       test_type = ''unit'',
       description = ''Teste de instancia'' @ [CHR 0xE7, CHR 0xE3] @ ''o da classe '' @ c_name cls,
       input_data = JObj [(''constructorArgs'', JArr [])],
       expected_output = JObj [(''type'', JStr ''object''), (''instanceof'', JStr (c_name cls))],
       test_code = ''// Teste de classe '' @ c_name cls @ '' - instantiation'',
       priority = 3,
       status = ''generated'' \<rparr>
     # methodTests cls analysisId (c_methods cls)"

text \<open>A line number inside a template literal: the number, or \<open>null\<close>.\<close>

definition lineText :: "nat option \<Rightarrow> string" where
  "lineText l = (case l of Some n \<Rightarrow> showNat n | None \<Rightarrow> ''null'')"

text \<open>\<open>generateConditionalTests\<close>, lines 169-203; \<open>i\<close> is the index of the first record.\<close>

fun conditionalTestsFrom :: "nat \<Rightarrow> conditionalInfo list \<Rightarrow> string \<Rightarrow> testCase list" where
  "conditionalTestsFrom i [] analysisId = []"
| "conditionalTestsFrom i (conditional # cs) analysisId =
     \<lparr> analysis_id = analysisId,
       function_name = ''conditional_'' @ showNat i,
       test_type = ''unit'',
       description = ''Teste do caminho verdadeiro da condicional na linha '' @ lineText (cd_line conditional),
       input_data = JObj [(''condition'', JBool True), (''testCase'', JStr ''true_path'')],
       expected_output = JObj [(''path'', JStr ''true'')],
       test_code = ''// Teste condicional '' @ cd_type conditional @ '' - caminho true'',
       priority = 2,
       status = ''generated'' \<rparr>
     # \<lparr> analysis_id = analysisId,
         function_name = ''conditional_'' @ showNat i,
         test_type = ''unit'',
         description = ''Teste do caminho falso da condicional na linha '' @ lineText (cd_line conditional),
         input_data = JObj [(''condition'', JBool False), (''testCase'', JStr ''false_path'')],
         expected_output = JObj [(''path'', JStr ''false'')],
         test_code = ''// Teste condicional '' @ cd_type conditional @ '' - caminho false'',
         priority = 2,
         status = ''generated'' \<rparr>
     # conditionalTestsFrom (Suc i) cs analysisId"

definition generateConditionalTests :: "conditionalInfo list \<Rightarrow> string \<Rightarrow> testCase list" where
  "generateConditionalTests conditionals analysisId = conditionalTestsFrom 0 conditionals analysisId"

text \<open>\<open>generateLoopTests\<close>, lines 205-239.\<close>

fun loopTestsFrom :: "nat \<Rightarrow> loopInfo list \<Rightarrow> string \<Rightarrow> testCase list" where
  "loopTestsFrom i [] analysisId = []"
| "loopTestsFrom i (loop # ls) analysisId =
     \<lparr> analysis_id = analysisId,
       function_name = ''loop_'' @ showNat i,
       test_type = ''unit'',
       description = ''Teste de itera'' @ [CHR 0xE7, CHR 0xE3] @ ''o normal do '' @ lp_type loop
                       @ '' na linha '' @ lineText (lp_line loop),
       input_data = JObj [(''iterations'', JNum 5 0), (''testCase'', JStr ''normal'')],
       expected_output = JObj [(''completed'', JBool True), (''iterations'', JNum 5 0)],
       test_code = ''// Teste de loop '' @ lp_type loop @ '' - normal'',
       priority = 2,
       status = ''generated'' \<rparr>
     # \<lparr> analysis_id = analysisId,
         function_name = ''loop_'' @ showNat i,
         test_type = ''edge_case'',
         description = ''Teste com zero itera'' @ [CHR 0xE7, CHR 0xF5] @ ''es do '' @ lp_type loop
                         @ '' na linha '' @ lineText (lp_line loop),
         input_data = JObj [(''iterations'', JNum 0 0), (''testCase'', JStr ''zero'')],
         expected_output = JObj [(''completed'', JBool True), (''iterations'', JNum 0 0)],
         test_code = ''// Teste de loop '' @ lp_type loop @ '' - zero'',
         priority = 3,
         status = ''generated'' \<rparr>
     # loopTestsFrom (Suc i) ls analysisId"

definition generateLoopTests :: "loopInfo list \<Rightarrow> string \<Rightarrow> testCase list" where
  "generateLoopTests loops analysisId = loopTestsFrom 0 loops analysisId"

text \<open>\<open>generateTestCases\<close>, lines 25-52.\<close>

fun functionTestsAll ::
  "genEnv \<Rightarrow> genState \<Rightarrow> functionInfo list \<Rightarrow> string \<Rightarrow> jsError + (testCase list \<times> genState)" where
  "functionTestsAll env st [] analysisId = Inr ([], st)"
| "functionTestsAll env st (func # fs) analysisId =
     bindE (generateFunctionTests env st func analysisId) (\<lambda>(functionTests, st1).
     bindE (functionTestsAll env st1 fs analysisId) (\<lambda>(tests, st2).
       Inr (functionTests @ tests, st2)))"

definition msgGenerationPrefix :: string where
  "msgGenerationPrefix = ''Falha na gera'' @ [CHR 0xE7, CHR 0xE3] @ ''o de testes: ''"

definition generateTestCases ::
  "genEnv \<Rightarrow> genState \<Rightarrow> analysis \<Rightarrow> string \<Rightarrow> jsError + (testCase list \<times> genState)" where
  "generateTestCases env st a analysisId =
     (case functionTestsAll env st (an_functions a) analysisId of
        Inl e \<Rightarrow> Inl (JsError None (msgGenerationPrefix @ message e))
      | Inr (functionTests, st1) \<Rightarrow>
          Inr (functionTests
               @ concat (map (\<lambda>cls. generateClassTests cls analysisId) (an_classes a))
               @ generateConditionalTests (an_conditionals a) analysisId
               @ generateLoopTests (an_loops a) analysisId, st1))"

section \<open>The inventory of functions, read off the tree\<close>











section \<open>The resolution order of the specification\<close>

text \<open>
  The rule table of the specification for \<open>sampleValue\<close>: each rule is a list of
  substrings and the value it gives; the first rule with a substring occurring in the
  lower-cased identifier decides, and \<open>"testValue"\<close> is the value when none does.
\<close>

primrec any_includes :: "string \<Rightarrow> string list \<Rightarrow> bool" where
  "any_includes name [] = False"
| "any_includes name (k # ks) = (includes_str name k \<or> any_includes name ks)"

fun first_match :: "(string list \<times> jsval) list \<Rightarrow> string \<Rightarrow> jsval" where
  "first_match [] name = JStr ''testValue''"
| "first_match ((ks, v) # rs) name = (if any_includes name ks then v else first_match rs name)"

definition sampleValue_rules :: "(string list \<times> jsval) list" where
  "sampleValue_rules =
     [([''id'', ''index'', ''count''], JNum 1 0),
      ([''age'', ''year''], JNum 25 0),
      ([''price'', ''amount'', ''value''], JNum 1005 1),
      ([''name'', ''title''], JStr ''Test Name''),
      ([''email''], JStr ''test@example.com''),
      ([''url'', ''link''], JStr ''https://example.com''),
      ([''password''], JStr ''Test123!''),
      ([''is'', ''has'', ''can''], JBool True),
      ([''list'', ''array'', ''items''], JArr [JStr ''item1'', JStr ''item2'']),
      ([''user'', ''person''], JObj [(''id'', JNum 1 0), (''name'', JStr ''Test User'')]),
      ([''config'', ''options''], JObj [(''option1'', JBool True), (''option2'', JStr ''value'')])]"

definition sampleValue_spec :: "string \<Rightarrow> jsval" where
  "sampleValue_spec ident = first_match sampleValue_rules (toLowerCase ident)"

section \<open>Descriptors of one function\<close>



section \<open>Templates as segments\<close>









section \<open>The cardinality formula of the specification\<close>

text \<open>
  The number of descriptors the specification gives for an inventory: for a function
  one, two for each parameter, one more when it has parameters and one more when it
  is asynchronous; for a class one and one for each method that is not the constructor;
  two for each conditional and two for each loop.
\<close>

definition functionCount :: "functionInfo \<Rightarrow> nat" where
  "functionCount f =
     1 + 2 * length (f_params f) + (if length (f_params f) > 0 then 1 else 0) + (if f_async f then 1 else 0)"

definition classCount :: "classInfo \<Rightarrow> nat" where
  "classCount c = 1 + length (filter (\<lambda>m. m_kind m \<noteq> ''constructor'') (c_methods c))"

definition expectedCount :: "analysis \<Rightarrow> nat" where
  "expectedCount a =
     sum_list (map functionCount (an_functions a)) + sum_list (map classCount (an_classes a))
       + 2 * length (an_conditionals a) + 2 * length (an_loops a)"

text \<open>Every parameter of every function of the inventory has a name.\<close>

definition allNamed :: "paramInfo list \<Rightarrow> bool" where
  "allNamed ps = list_all (\<lambda>p. p_name p \<noteq> None) ps"

section \<open>Example inputs\<close>

text \<open>
  An environment with the default size limit whose parser answers with the given tree:
  the tree @babel/parser builds for the source text of an example.
\<close>

definition envWithTree :: "node \<Rightarrow> parserEnv" where
  "envWithTree ast =
     \<lparr> maxCodeSize = configuredMaxCodeSize None,
       parse = (\<lambda>s. Inr ast),
       parserVersion = ''7.23.0'',
       env_now = ''2024-01-01T00:00:00.000Z'' \<rparr>"


text \<open>The \<open>Program\<close> node around the statements of a source text.\<close>

definition program :: "node list \<Rightarrow> node" where
  "program body = Node OtherNode (Some 1) body"




text \<open>The tree of \<open>function add(a, b) { return a + b; }\<close>.\<close>

definition addTree :: node where
  "addTree =
     program
       [Node (FunctionDeclaration \<lparr> fn_id = Some ''add'', fn_params = [PIdentifier ''a'', PIdentifier ''b''],
                                    fn_async = False, fn_generator = False \<rparr>)
          (Some 1)
          [Node OtherNode (Some 1) [], Node OtherNode (Some 1) [], Node OtherNode (Some 1) [],
           Node BlockStatement (Some 1)
             [Node OtherNode (Some 1)
                [Node OtherNode (Some 1) [Node OtherNode (Some 1) [], Node OtherNode (Some 1) []]]]]]"




text \<open>
  A run of the synthesizer with the built-in templates, every random number at most
  one half, and a clock standing still.
\<close>

definition defaultGenEnv :: genEnv where
  "defaultGenEnv =
     \<lparr> templates = getDefaultTemplates,
       coin = (\<lambda>k. False),
       clock = (\<lambda>k. ''2024-01-01T00:00:00.000Z'') \<rparr>"

definition initialGenState :: genState where
  "initialGenState = \<lparr> g_draws = 0, g_reads = 0 \<rparr>"

text \<open>Analysis of a source text followed by synthesis, as the callers of both do.\<close>

definition analyzeAndSynthesize ::
  "parserEnv \<Rightarrow> genEnv \<Rightarrow> string \<Rightarrow> string \<Rightarrow> jsError + testCase list" where
  "analyzeAndSynthesize penv genv sourceCode analysisId =
     (case analyzeCode penv (SrcString sourceCode) None of
        Inl e \<Rightarrow> Inl e
      | Inr r \<Rightarrow>
          (case generateTestCases genv initialGenState (r_analysis r) analysisId of
             Inl e \<Rightarrow> Inl e
           | Inr (tests, st) \<Rightarrow> Inr tests))"

section \<open>Properties of the heuristic value generator\<close>

text \<open>
  Claim C5. \<open>generateSampleValueByName\<close> lower-cases the identifier and gives the
  value of the first rule of the table of the specification that matches, in the order
  of that table, and \<open>"testValue"\<close> when no rule matches.
\<close>

theorem sampleValue_first_match:
  "generateSampleValueByName ident = sampleValue_spec ident"
  by (simp add: generateSampleValueByName_def sampleValue_spec_def sampleValue_rules_def Let_def)

theorem sampleValue_first_match_witness:
  "generateSampleValueByName ''userId'' = JNum 1 0 \<and> sampleValue_spec ''userId'' = JNum 1 0"
proof -
  have "generateSampleValueByName ''userId'' = JNum 1 0" by code_simp
  with sampleValue_first_match [of "''userId''"] show ?thesis by simp
qed

text \<open>
  Claim C4, as stated, fails: for the identifier \<open>date\<close> two calls of
  \<open>generateHighQualityValue\<close> at different instants give different values.
\<close>

theorem qualityValue_depends_on_clock:
  "generateHighQualityValue ''2024-01-01T00:00:00.000Z'' ''date''
     \<noteq> generateHighQualityValue ''2024-01-02T00:00:00.000Z'' ''date''"
  by code_simp

text \<open>
  Claim C4, amended. The sample value is a function of the lower-cased identifier
  alone. The quality value is a function of the lower-cased identifier and of the
  instant of the call, and of the lower-cased identifier alone when it contains
  \<open>email\<close> or \<open>phone\<close> or does not contain \<open>date\<close>.
\<close>

theorem values_determined_by_name:
  "(toLowerCase a = toLowerCase b \<longrightarrow> generateSampleValueByName a = generateSampleValueByName b) \<and>
   (toLowerCase a = toLowerCase b \<longrightarrow> generateHighQualityValue t a = generateHighQualityValue t b) \<and>
   (toLowerCase a = toLowerCase b \<and>
      (includes_str (toLowerCase a) ''email'' \<or> includes_str (toLowerCase a) ''phone''
        \<or> \<not> includes_str (toLowerCase a) ''date'')
     \<longrightarrow> generateHighQualityValue t1 a = generateHighQualityValue t2 b)"
  by (auto simp add: generateSampleValueByName_def generateHighQualityValue_def Let_def)

theorem values_determined_by_name_witness:
  "generateSampleValueByName ''UserEmail'' = generateSampleValueByName ''useremail'' \<and>
   generateHighQualityValue ''2024-01-01T00:00:00.000Z'' ''UserEmail''
     = generateHighQualityValue ''2024-01-02T00:00:00.000Z'' ''useremail''"
proof -
  have l: "toLowerCase ''UserEmail'' = toLowerCase ''useremail''" by code_simp
  have e: "includes_str (toLowerCase ''UserEmail'') ''email''" by code_simp
  from values_determined_by_name [where a = "''UserEmail''" and b = "''useremail''"
      and ?t1.0 = "''2024-01-01T00:00:00.000Z''" and ?t2.0 = "''2024-01-02T00:00:00.000Z''"] l e
  show ?thesis by blast
qed

section \<open>Properties of the analyzer\<close>


lemma enterNode_analysis [simp]: "ts_analysis (enterNode k st) = ts_analysis st"
  by (simp add: enterNode_def)

lemma exitNode_analysis [simp]: "ts_analysis (exitNode k st) = ts_analysis st"
  by (simp add: exitNode_def)













section \<open>Exception handling blocks\<close>


section \<open>The recorded functions\<close>








section \<open>Anonymous functions\<close>

lemma includes_str_iff: "includes_str s w \<longleftrightarrow> (\<exists>a b. s = a @ w @ b)"
proof (induction s)
  case Nil
  show ?case by auto
next
  case (Cons c cs)
  show ?case
  proof
    assume "includes_str (c # cs) w"
    then consider "prefix w (c # cs)" | "includes_str cs w" by auto
    then show "\<exists>a b. c # cs = a @ w @ b"
    proof cases
      case 1
      then obtain b where "c # cs = w @ b" by (auto simp add: prefix_def)
      then have "c # cs = [] @ w @ b" by simp
      then show ?thesis by blast
    next
      case 2
      then obtain a b where "cs = a @ w @ b" using Cons.IH by blast
      then have "c # cs = (c # a) @ w @ b" by simp
      then show ?thesis by blast
    qed
  next
    assume "\<exists>a b. c # cs = a @ w @ b"
    then obtain a b where ab: "c # cs = a @ w @ b" by blast
    show "includes_str (c # cs) w"
    proof (cases a)
      case Nil
      then have "prefix w (c # cs)" using ab by (simp add: prefix_def)
      then show ?thesis by simp
    next
      case (Cons x a')
      then have "cs = a' @ w @ b" using ab by simp
      then have "includes_str cs w" using Cons.IH by blast
      then show ?thesis by simp
    qed
  qed
qed


lemma includes_str_append_right: "includes_str s w \<Longrightarrow> includes_str (s @ t) w"
  by (metis append.assoc includes_str_iff)














lemma bindE_Inr_iff: "bindE m f = Inr y \<longleftrightarrow> (\<exists>x. m = Inr x \<and> f x = Inr y)"
  by (cases m) (auto simp add: bindE_def)









section \<open>Properties of the template renderer\<close>














section \<open>Properties of the synthesizer\<close>

lemma paramTests_length:
  "paramTests genv func aid is st = Inr (tests, st') \<Longrightarrow> length tests = 2 * length is"
proof (induction "is" arbitrary: st tests st')
  case Nil
  then show ?case by simp
next
  case (Cons i rest)
  then show ?case by (auto simp add: bindE_Inr_iff)
qed

lemma generateFunctionTests_length:
  assumes "generateFunctionTests genv st func aid = Inr (tests, st')"
  shows "length tests = functionCount func"
  using assms paramTests_length [of genv func aid "[0..<length (f_params func)]" st]
  by (auto simp add: generateFunctionTests_def bindE_Inr_iff functionCount_def generateNullParamData_def
      split: if_splits)

lemma functionTestsAll_length:
  "functionTestsAll genv st fs aid = Inr (tests, st') \<Longrightarrow> length tests = sum_list (map functionCount fs)"
proof (induction fs arbitrary: st tests st')
  case Nil
  then show ?case by simp
next
  case (Cons f fs)
  then show ?case by (auto simp add: bindE_Inr_iff generateFunctionTests_length)
qed

lemma methodTests_length:
  "length (methodTests cls aid ms) = length (filter (\<lambda>m. m_kind m \<noteq> ''constructor'') ms)"
  by (induction ms) auto

lemma classTests_length:
  "length (concat (map (\<lambda>cls. generateClassTests cls aid) cs)) = sum_list (map classCount cs)"
  by (induction cs) (auto simp add: generateClassTests_def classCount_def methodTests_length)

lemma conditionalTestsFrom_length: "length (conditionalTestsFrom i cs aid) = 2 * length cs"
  by (induction cs arbitrary: i) auto

lemma loopTestsFrom_length: "length (loopTestsFrom i ls aid) = 2 * length ls"
  by (induction ls arbitrary: i) auto

lemma generateTestCases_length:
  assumes "generateTestCases genv st a aid = Inr (tests, st')"
  shows "length tests = expectedCount a"
  using assms
  by (auto simp add: generateTestCases_def expectedCount_def functionTestsAll_length classTests_length
        generateConditionalTests_def generateLoopTests_def conditionalTestsFrom_length loopTestsFrom_length
      split: sum.splits)

lemma inputDataFrom_named:
  "allNamed ps \<Longrightarrow> \<exists>d. inputDataFrom i ps obj = Inr d"
  by (induction ps arbitrary: i obj) (auto simp add: allNamed_def)

lemma generateInputData_named: "allNamed ps \<Longrightarrow> \<exists>d. generateInputData ps = Inr d"
  by (simp add: generateInputData_def inputDataFrom_named)

lemma generateTestCode_named:
  "allNamed (f_params func) \<Longrightarrow> templates genv ''unit'' \<noteq> None \<Longrightarrow>
     \<exists>c. generateTestCode genv func kind i = Inr c"
  using generateInputData_named [of "f_params func"]
  by (auto simp add: generateTestCode_def bindE_def)

lemma paramTests_named:
  assumes "allNamed (f_params func)" "templates genv ''unit'' \<noteq> None"
  shows "\<forall>i \<in> set is. i < length (f_params func) \<Longrightarrow> \<exists>r. paramTests genv func aid is st = Inr r"
proof (induction "is" arbitrary: st)
  case Nil
  show ?case by simp
next
  case (Cons i rest)
  obtain d where d: "generateInputData (f_params func) = Inr d"
    using generateInputData_named assms(1) by blast
  have "i < length (f_params func)" using Cons.prems by simp
  then obtain n where n: "p_name (f_params func ! i) = Some n"
    using assms(1) by (auto simp add: allNamed_def list_all_length)
  obtain st1 d1 where v: "generateValidParamData genv st (f_params func) i = Inr (d1, st1)"
    using d n by (simp add: generateValidParamData_def)
  obtain d2 where iv: "generateInvalidParamData (f_params func) i = Inr d2"
    using d by (simp add: generateInvalidParamData_def)
  obtain c1 where c1: "generateTestCode genv func ''valid_param'' i = Inr c1"
    using generateTestCode_named [OF assms] by blast
  obtain c2 where c2: "generateTestCode genv func ''invalid_param'' i = Inr c2"
    using generateTestCode_named [OF assms] by blast
  obtain r where r: "paramTests genv func aid rest st1 = Inr r"
    using Cons.IH [of st1] Cons.prems by auto
  show ?case using v iv c1 c2 r by (cases r) (simp add: bindE_def)
qed

lemma generateFunctionTests_named:
  assumes "allNamed (f_params func)" "templates genv ''unit'' \<noteq> None"
  shows "\<exists>r. generateFunctionTests genv st func aid = Inr r"
proof -
  obtain d where d: "generateInputData (f_params func) = Inr d"
    using generateInputData_named assms(1) by blast
  obtain c where c: "generateTestCode genv func ''basic'' 0 = Inr c"
    using generateTestCode_named [OF assms] by blast
  obtain ts st1 where p: "paramTests genv func aid [0..<length (f_params func)] st = Inr (ts, st1)"
    using paramTests_named [OF assms, of "[0..<length (f_params func)]" aid st] by auto
  obtain cn where cn: "generateTestCode genv func ''null_params'' 0 = Inr cn"
    using generateTestCode_named [OF assms] by blast
  obtain ca where ca: "generateTestCode genv func ''async'' 0 = Inr ca"
    using generateTestCode_named [OF assms] by blast
  show ?thesis using d c p cn ca
    by (auto simp add: generateFunctionTests_def bindE_def generateNullParamData_def)
qed

lemma functionTestsAll_named:
  assumes "templates genv ''unit'' \<noteq> None"
  shows "list_all (\<lambda>f. allNamed (f_params f)) fs \<Longrightarrow> \<exists>r. functionTestsAll genv st fs aid = Inr r"
proof (induction fs arbitrary: st)
  case Nil
  show ?case by simp
next
  case (Cons f fs)
  obtain ts st1 where a: "generateFunctionTests genv st f aid = Inr (ts, st1)"
    using generateFunctionTests_named [of f genv st aid] assms Cons.prems by auto
  obtain r where r: "functionTestsAll genv st1 fs aid = Inr r"
    using Cons.IH [of st1] Cons.prems by auto
  show ?case using a r by (cases r) (simp add: bindE_def)
qed

lemma synthesis_cardinality:
  assumes "list_all (\<lambda>f. allNamed (f_params f)) (an_functions a)"
    and "an_functions a = [] \<or> templates genv ''unit'' \<noteq> None"
  shows "\<exists>tests st'. generateTestCases genv st a aid = Inr (tests, st') \<and> length tests = expectedCount a"
proof -
  have "\<exists>r. functionTestsAll genv st (an_functions a) aid = Inr r"
  proof (cases "an_functions a = []")
    case True
    then show ?thesis by simp
  next
    case False
    then show ?thesis using functionTestsAll_named assms by blast
  qed
  then obtain ts st1 where "functionTestsAll genv st (an_functions a) aid = Inr (ts, st1)" by auto
  then obtain tests st' where g: "generateTestCases genv st a aid = Inr (tests, st')"
    by (simp add: generateTestCases_def)
  then show ?thesis using generateTestCases_length by blast
qed

text \<open>
  Scenario A of the specification: the source \<open>function add(a, b) { return a + b; }\<close>
  gives six descriptors of kind unit, edge_case or negative.
\<close>

lemma scenario_add:
  "map_sum id (map test_type)
     (analyzeAndSynthesize (envWithTree addTree) defaultGenEnv ''function add(a, b) { return a + b; }'' ''A1'')
   = Inr [''unit'', ''unit'', ''edge_case'', ''unit'', ''edge_case'', ''negative'']"
  by code_simp


end
